theory Spec2Isabelle
  imports Main
begin

section \<open>The Sphinx configuration module \<^verbatim>\<open>docs/conf.py\<close>\<close>

text \<open>
  \<^verbatim>\<open>docs/conf.py\<close> is a module that the documentation builder executes once, top to
  bottom. It imports three names, computes \<^verbatim>\<open>release\<close> from the state of the git
  checkout, and then binds nine further names to literals. The module is modelled as
  the list of its top-level statements, each a function from the module namespace to
  either the exception it raises or the namespace it leaves behind.
\<close>

subsection \<open>Values, namespaces, exceptions\<close>

text \<open>
  The Python values that the module binds: strings, the booleans, lists, and the
  classes and functions that an import binds (kept by their qualified name only).
\<close>

datatype pyval = PStr string | PBool bool | PList "pyval list" | PObj string

type_synonym namespace = "string \<rightharpoonup> pyval"

datatype exn = Exn string

type_synonym stmt = "namespace \<Rightarrow> exn + namespace"

subsection \<open>The world outside the module\<close>

text \<open>
  \<^verbatim>\<open>pathlib\<close> and \<^verbatim>\<open>setuptools_scm\<close> are third-party code. What they answer depends on
  the file system and the git checkout, so they are parameters of the model.

  \<^verbatim>\<open>ScmVersion\<close> is the object that \<^verbatim>\<open>setuptools_scm\<close> hands to a version scheme or a
  local scheme. The module reads its attribute \<^verbatim>\<open>tag\<close> only.
\<close>

record 't scm_version =
  tag :: 't
  distance :: nat
  node :: string
  dirty :: bool

text \<open>
  The keyword arguments of one call of \<^verbatim>\<open>get_version\<close>. \<open>None\<close> is a keyword that the
  call does not pass, so that \<^verbatim>\<open>setuptools_scm\<close> uses its default scheme.
\<close>

record 't gv_args =
  root :: string
  version_scheme :: "('t scm_version \<Rightarrow> string) option"
  local_scheme :: "('t scm_version \<Rightarrow> string) option"

text \<open>
  \<^item> \<open>import_error m\<close>: the exception that importing module \<open>m\<close> raises, if any;
  \<^item> \<open>resolve p\<close>: \<^verbatim>\<open>Path(p).resolve()\<close>;
  \<^item> \<open>get_branch d\<close>: \<^verbatim>\<open>GitWorkdir(d).get_branch()\<close>, which answers \<^verbatim>\<open>None\<close> when
    there is no branch name;
  \<^item> \<open>get_version a\<close>: \<^verbatim>\<open>get_version(**a)\<close>;
  \<^item> \<open>py_str x\<close>: \<^verbatim>\<open>str(x)\<close> on a tag object.
\<close>

record 't env =
  import_error :: "string \<Rightarrow> exn option"
  resolve :: "string \<Rightarrow> exn + string"
  get_branch :: "string \<Rightarrow> exn + string option"
  get_version :: "'t gv_args \<Rightarrow> exn + string"
  py_str :: "'t \<Rightarrow> string"

subsection \<open>Statements\<close>

text \<open>\<^verbatim>\<open>name = value\<close> binds the name, replacing whatever it was bound to.\<close>

definition assign :: "string \<Rightarrow> pyval \<Rightarrow> stmt" where
  "assign n v ns = Inr (ns(n \<mapsto> v))"

text \<open>\<^verbatim>\<open>from m import n\<close> raises what the import raises, or binds \<open>n\<close>.\<close>

definition import_from :: "'t env \<Rightarrow> string \<Rightarrow> string \<Rightarrow> stmt" where
  "import_from e m n ns =
     (case import_error e m of
        Some x \<Rightarrow> Inl x
      | None \<Rightarrow> Inr (ns(n \<mapsto> PObj (m @ ''.'' @ n))))"

text \<open>
  Statements run in order; the first exception ends the run and is its result.
\<close>

fun exec :: "stmt list \<Rightarrow> namespace \<Rightarrow> exn + namespace" where
  "exec [] ns = Inr ns"
| "exec (s # ss) ns = (case s ns of Inl x \<Rightarrow> Inl x | Inr ns' \<Rightarrow> exec ss ns')"

text \<open>
  The namespaces a run goes through: the one it starts in, then the one after each
  statement that completes. A statement that raises leaves none.
\<close>

fun trace :: "stmt list \<Rightarrow> namespace \<Rightarrow> namespace list" where
  "trace [] ns = [ns]"
| "trace (s # ss) ns = ns # (case s ns of Inl x \<Rightarrow> [] | Inr ns' \<Rightarrow> trace ss ns')"

subsection \<open>Lines 13 to 21: the release string\<close>

text \<open>\<^verbatim>\<open>GitWorkdir(Path("../").resolve()).get_branch()\<close>\<close>

definition current_branch :: "'t env \<Rightarrow> exn + string option" where
  "current_branch e =
     (case resolve e ''../'' of Inl x \<Rightarrow> Inl x | Inr d \<Rightarrow> get_branch e d)"

text \<open>
  The arguments of the call on lines 15 to 19, with the two lambdas
  \<^verbatim>\<open>lambda v: str(v.tag)\<close> and \<^verbatim>\<open>lambda _: ""\<close>, and of the call on line 21.
\<close>

definition stable_args :: "'t env \<Rightarrow> 't gv_args" where
  "stable_args e =
     \<lparr>root = ''../'',
      version_scheme = Some (\<lambda>v. py_str e (tag v)),
      local_scheme = Some (\<lambda>_. '''')\<rparr>"

definition default_args :: "'t gv_args" where
  "default_args = \<lparr>root = ''../'', version_scheme = None, local_scheme = None\<rparr>"

definition release_stmt :: "'t env \<Rightarrow> stmt" where
  "release_stmt e ns =
     (case current_branch e of
        Inl x \<Rightarrow> Inl x
      | Inr b \<Rightarrow>
          if b = Some ''stable'' then
            (case get_version e (stable_args e) of
               Inl x \<Rightarrow> Inl x
             | Inr r \<Rightarrow> assign ''release'' (PStr r) ns)
          else
            (case get_version e default_args of
               Inl x \<Rightarrow> Inl x
             | Inr r \<Rightarrow> assign ''release'' (PStr r) ns))"

subsection \<open>The module\<close>

definition conf_stmts :: "'t env \<Rightarrow> stmt list" where
  "conf_stmts e =
     [import_from e ''pathlib'' ''Path'',
      import_from e ''setuptools_scm'' ''get_version'',
      import_from e ''setuptools_scm.git'' ''GitWorkdir'',
      release_stmt e,
      assign ''project'' (PStr ''Configurature''),
      assign ''copyright'' (PStr ''2024, Google LLC''),
      assign ''author'' (PStr ''Ian Moore''),
      assign ''extensions'' (PList []),
      assign ''templates_path'' (PList []),
      assign ''exclude_patterns'' (PList []),
      assign ''extensions''
        (PList [PStr ''myst_parser'', PStr ''sphinx_tabs.tabs'',
                PStr ''sphinx.ext.autosectionlabel'']),
      assign ''autosectionlabel_prefix_document'' (PBool True),
      assign ''html_theme'' (PStr ''sphinx_rtd_theme''),
      assign ''html_static_path'' (PList [])]"

definition conf :: "'t env \<Rightarrow> namespace \<Rightarrow> exn + namespace" where
  "conf e ns = exec (conf_stmts e) ns"

subsection \<open>What a run computes\<close>

text \<open>
  The value that lines 13 to 21 bind to \<^verbatim>\<open>release\<close>, or the exception they raise:
  the branch decides which of the two calls of \<^verbatim>\<open>get_version\<close> is made.
\<close>

definition release_value :: "'t env \<Rightarrow> exn + string" where
  "release_value e =
     (case current_branch e of
        Inl x \<Rightarrow> Inl x
      | Inr b \<Rightarrow> get_version e (if b = Some ''stable'' then stable_args e else default_args))"

text \<open>The bindings of the three imports (lines 8 to 11), in order.\<close>

definition imported :: "namespace \<Rightarrow> namespace" where
  "imported ns =
     ns(''Path'' \<mapsto> PObj ''pathlib.Path'',
        ''get_version'' \<mapsto> PObj ''setuptools_scm.get_version'',
        ''GitWorkdir'' \<mapsto> PObj ''setuptools_scm.git.GitWorkdir'')"

text \<open>The bindings of the ten literal assignments (lines 23 to 49), in order.\<close>

definition literals :: "namespace \<Rightarrow> namespace" where
  "literals ns =
     ns(''project'' \<mapsto> PStr ''Configurature'',
        ''copyright'' \<mapsto> PStr ''2024, Google LLC'',
        ''author'' \<mapsto> PStr ''Ian Moore'',
        ''extensions'' \<mapsto> PList [],
        ''templates_path'' \<mapsto> PList [],
        ''exclude_patterns'' \<mapsto> PList [],
        ''extensions'' \<mapsto>
          PList [PStr ''myst_parser'', PStr ''sphinx_tabs.tabs'',
                 PStr ''sphinx.ext.autosectionlabel''],
        ''autosectionlabel_prefix_document'' \<mapsto> PBool True,
        ''html_theme'' \<mapsto> PStr ''sphinx_rtd_theme'',
        ''html_static_path'' \<mapsto> PList [])"

text \<open>The targets of the module's assignment statements, in order of first assignment.\<close>

definition config_names :: "string list" where
  "config_names =
     [''release'', ''project'', ''copyright'', ''author'', ''extensions'',
      ''templates_path'', ''exclude_patterns'', ''autosectionlabel_prefix_document'',
      ''html_theme'', ''html_static_path'']"

subsection \<open>Shapes of configuration values\<close>

fun is_str :: "pyval \<Rightarrow> bool" where
  "is_str (PStr _) = True"
| "is_str _ = False"

fun is_str_list :: "pyval \<Rightarrow> bool" where
  "is_str_list (PList vs) = list_all is_str vs"
| "is_str_list _ = False"

fun is_bool :: "pyval \<Rightarrow> bool" where
  "is_bool (PBool _) = True"
| "is_bool _ = False"

text \<open>
  The shape each configuration name is meant to have: five plain strings, four lists
  of strings, one flag. Any other name may hold anything.
\<close>

definition shape_of :: "string \<Rightarrow> pyval \<Rightarrow> bool" where
  "shape_of n =
     (if n \<in> set [''project'', ''copyright'', ''author'', ''html_theme'', ''release'']
        then is_str
      else if n \<in> set [''extensions'', ''templates_path'', ''exclude_patterns'',
                        ''html_static_path'']
        then is_str_list
      else if n = ''autosectionlabel_prefix_document'' then is_bool
      else (\<lambda>_. True))"

text \<open>A namespace is well shaped when every configuration name it binds has its shape.\<close>

definition well_shaped :: "namespace \<Rightarrow> bool" where
  "well_shaped ns =
     list_all (\<lambda>n. case ns n of None \<Rightarrow> True | Some v \<Rightarrow> shape_of n v) config_names"

subsection \<open>Sample build environments\<close>

text \<open>
  A checkout three commits after the tag \<^verbatim>\<open>0.4.0\<close>. Its \<^verbatim>\<open>get_version\<close> joins what the
  version scheme and the local scheme give, each defaulting to a development scheme.
  The argument is the branch that is checked out.
\<close>

definition sample_version :: "string scm_version" where
  "sample_version = \<lparr>tag = ''0.4.0'', distance = 3, node = ''g1a2b3c'', dirty = False\<rparr>"

definition sample_get_version :: "string gv_args \<Rightarrow> exn + string" where
  "sample_get_version a =
     Inr ((case version_scheme a of Some f \<Rightarrow> f sample_version | None \<Rightarrow> ''0.4.1.dev3'')
          @ (case local_scheme a of Some g \<Rightarrow> g sample_version | None \<Rightarrow> ''+g1a2b3c''))"

definition sample_env :: "string option \<Rightarrow> string env" where
  "sample_env b =
     \<lparr>import_error = (\<lambda>_. None),
      resolve = (\<lambda>_. Inr ''/work/configurature''),
      get_branch = (\<lambda>_. Inr b),
      get_version = sample_get_version,
      py_str = (\<lambda>s. s)\<rparr>"

text \<open>
  The same checkout where a call of \<^verbatim>\<open>get_version\<close> with a version scheme of the
  caller's raises, and a call without one answers.
\<close>

definition no_tag_env :: "string option \<Rightarrow> string env" where
  "no_tag_env b =
     (sample_env b)\<lparr>get_version :=
        (\<lambda>a. case version_scheme a of
                Some f \<Rightarrow> Inl (Exn ''LookupError'')
              | None \<Rightarrow> Inr ''0.1.dev1+g1a2b3c'')\<rparr>"

text \<open>A machine where the branch lookup raises.\<close>

definition no_git_env :: "string env" where
  "no_git_env =
     (sample_env None)\<lparr>get_branch := (\<lambda>_. Inl (Exn ''CommandNotFoundError''))\<rparr>"

text \<open>What a run in an empty namespace ends with when \<^verbatim>\<open>release\<close> is \<open>r\<close>.\<close>

definition sample_result :: "string \<Rightarrow> namespace" where
  "sample_result r = literals ((imported Map.empty)(''release'' \<mapsto> PStr r))"

subsection \<open>What \<^verbatim>\<open>get_version\<close> does with the schemes it is given\<close>

text \<open>
  \<^verbatim>\<open>setuptools_scm\<close> is not part of this repository, so how \<^verbatim>\<open>get_version\<close> uses its
  arguments is an assumption about the environment, not a definition. The assumption
  is the library's contract for a call that passes both schemes as callables: it
  finds the \<^verbatim>\<open>ScmVersion\<close> of the checkout under the root (\<open>parse\<close>, which may raise),
  and answers what the version scheme gives for it followed by what the local
  scheme gives for it.
\<close>

definition applies_schemes :: "'t env \<Rightarrow> (string \<Rightarrow> exn + 't scm_version) \<Rightarrow> bool" where
  "applies_schemes e parse =
     (\<forall>rt f g.
        get_version e \<lparr>root = rt, version_scheme = Some f, local_scheme = Some g\<rparr> =
          (case parse rt of Inl x \<Rightarrow> Inl x | Inr v \<Rightarrow> Inr (f v @ g v)))"

section \<open>Properties\<close>

subsection \<open>The run as a whole\<close>

lemma release_stmt_value:
  "release_stmt e ns =
     (case release_value e of Inl x \<Rightarrow> Inl x | Inr r \<Rightarrow> Inr (ns(''release'' \<mapsto> PStr r)))"
  by (simp add: release_stmt_def release_value_def assign_def split: sum.splits)

text \<open>A run that completes went through all three imports and got a release string.\<close>

lemma conf_Inr:
  assumes "conf e ns0 = Inr ns"
  shows "import_error e ''pathlib'' = None \<and> import_error e ''setuptools_scm'' = None \<and>
         import_error e ''setuptools_scm.git'' = None \<and>
         (\<exists>r. release_value e = Inr r \<and>
              ns = literals ((imported ns0)(''release'' \<mapsto> PStr r)))"
  using assms
  by (simp add: conf_def conf_stmts_def import_from_def release_stmt_value assign_def
        imported_def literals_def split: option.splits sum.splits)

lemma conf_ok:
  assumes "import_error e ''pathlib'' = None" "import_error e ''setuptools_scm'' = None"
    "import_error e ''setuptools_scm.git'' = None" "release_value e = Inr r"
  shows "conf e ns0 = Inr (literals ((imported ns0)(''release'' \<mapsto> PStr r)))"
  using assms
  by (simp add: conf_def conf_stmts_def import_from_def release_stmt_value assign_def
        imported_def literals_def split: option.splits sum.splits)

lemma sample_release_stable: "release_value (sample_env (Some ''stable'')) = Inr ''0.4.0''"
  by (simp add: release_value_def current_branch_def sample_env_def sample_get_version_def
        stable_args_def sample_version_def)

lemma sample_release_main:
  "release_value (sample_env (Some ''main'')) = Inr ''0.4.1.dev3+g1a2b3c''"
  by (simp add: release_value_def current_branch_def sample_env_def sample_get_version_def
        default_args_def)

lemma sample_conf_stable:
  "conf (sample_env (Some ''stable'')) Map.empty = Inr (sample_result ''0.4.0'')"
  unfolding sample_result_def
  by (rule conf_ok) (simp_all add: sample_release_stable, simp_all add: sample_env_def)

lemma sample_conf_main:
  "conf (sample_env (Some ''main'')) Map.empty = Inr (sample_result ''0.4.1.dev3+g1a2b3c'')"
  unfolding sample_result_def
  by (rule conf_ok) (simp_all add: sample_release_main, simp_all add: sample_env_def)

subsection \<open>The release string\<close>

text \<open>
  Claim C1. In every run that completes, the branch lookup answered some branch \<open>b\<close>
  and \<^verbatim>\<open>release\<close> is bound to a string \<open>r\<close>. When \<open>b\<close> is \<^verbatim>\<open>'stable'\<close>, \<open>r\<close> is what
  \<^verbatim>\<open>get_version\<close> answered to the root \<^verbatim>\<open>"../"\<close>, a version scheme that gives
  \<^verbatim>\<open>str(v.tag)\<close> for every \<open>v\<close> and a local scheme that gives the empty string for every
  input; and in every environment whose \<^verbatim>\<open>get_version\<close> applies the schemes it is given
  to the \<^verbatim>\<open>ScmVersion\<close> \<open>v\<close> it finds under the root, \<open>r\<close> is \<^verbatim>\<open>str(v.tag)\<close> followed by
  the empty local part, that is the bare tag. For every other \<open>b\<close> (no branch
  included), \<open>r\<close> is what \<^verbatim>\<open>get_version\<close> answered to the root \<^verbatim>\<open>'../'\<close> alone, with its
  default schemes.
\<close>

theorem release_follows_branch:
  assumes "conf e ns0 = Inr ns"
  shows "\<exists>b r. current_branch e = Inr b \<and> ns ''release'' = Some (PStr r) \<and>
           (if b = Some ''stable''
            then (\<exists>f g. get_version e \<lparr>root = ''../'', version_scheme = Some f,
                                         local_scheme = Some g\<rparr> = Inr r \<and>
                         (\<forall>v. f v = py_str e (tag v)) \<and> (\<forall>v. g v = '''')) \<and>
                 (applies_schemes e parse \<longrightarrow>
                    (\<exists>v. parse ''../'' = Inr v \<and> r = py_str e (tag v) @ '''' \<and>
                         r = py_str e (tag v)))
            else get_version e \<lparr>root = ''../'', version_scheme = None,
                                 local_scheme = None\<rparr> = Inr r)"
proof -
  from conf_Inr [OF assms] obtain r where
    rv: "release_value e = Inr r" and
    ns: "ns = literals ((imported ns0)(''release'' \<mapsto> PStr r))"
    by blast
  from rv obtain b where
    b: "current_branch e = Inr b" and
    gv: "get_version e (if b = Some ''stable'' then stable_args e else default_args) = Inr r"
    by (auto simp: release_value_def split: sum.splits)
  have rel: "ns ''release'' = Some (PStr r)"
    by (simp add: ns literals_def)
  show ?thesis
  proof (cases "b = Some ''stable''")
    case True
    with gv have call:
      "get_version e \<lparr>root = ''../'', version_scheme = Some (\<lambda>v. py_str e (tag v)),
                       local_scheme = Some (\<lambda>_. '''')\<rparr> = Inr r"
      by (simp add: stable_args_def)
    then have args:
      "\<exists>f g. get_version e \<lparr>root = ''../'', version_scheme = Some f,
                              local_scheme = Some g\<rparr> = Inr r \<and>
              (\<forall>v. f v = py_str e (tag v)) \<and> (\<forall>v. g v = '''')"
      by blast
    have val: "\<exists>v. parse ''../'' = Inr v \<and> r = py_str e (tag v) @ '''' \<and>
                   r = py_str e (tag v)"
      if c: "applies_schemes e parse"
    proof -
      from c have
        "get_version e \<lparr>root = ''../'', version_scheme = Some (\<lambda>v. py_str e (tag v)),
                         local_scheme = Some (\<lambda>_. '''')\<rparr> =
           (case parse ''../'' of Inl x \<Rightarrow> Inl x
            | Inr v \<Rightarrow> Inr (py_str e (tag v) @ ''''))"
        unfolding applies_schemes_def by blast
      with call show ?thesis
        by (cases "parse ''../''") simp_all
    qed
    from b rel True args val show ?thesis by auto
  next
    case False
    with gv have
      "get_version e \<lparr>root = ''../'', version_scheme = None, local_scheme = None\<rparr> = Inr r"
      by (simp add: default_args_def)
    with b rel False show ?thesis by auto
  qed
qed

text \<open>
  The two sample checkouts, for claim C1. The sample \<^verbatim>\<open>get_version\<close> applies the
  schemes it is given; on \<^verbatim>\<open>stable\<close> the release is \<^verbatim>\<open>str\<close> of the tag of the sample
  version, \<^verbatim>\<open>0.4.0\<close>, and on \<^verbatim>\<open>main\<close> it is the development version with its local
  part.
\<close>

theorem release_follows_branch_witness:
  "(conf (sample_env (Some ''stable'')) Map.empty = Inr (sample_result ''0.4.0'') \<and>
    applies_schemes (sample_env (Some ''stable'')) (\<lambda>_. Inr sample_version) \<and>
    current_branch (sample_env (Some ''stable'')) = Inr (Some ''stable'') \<and>
    sample_result ''0.4.0'' ''release'' =
      Some (PStr (py_str (sample_env (Some ''stable'')) (tag sample_version))) \<and>
    py_str (sample_env (Some ''stable'')) (tag sample_version) = ''0.4.0'') \<and>
   (conf (sample_env (Some ''main'')) Map.empty = Inr (sample_result ''0.4.1.dev3+g1a2b3c'') \<and>
    current_branch (sample_env (Some ''main'')) = Inr (Some ''main'') \<and>
    sample_result ''0.4.1.dev3+g1a2b3c'' ''release'' = Some (PStr ''0.4.1.dev3+g1a2b3c'') \<and>
    get_version (sample_env (Some ''main'')) default_args = Inr ''0.4.1.dev3+g1a2b3c'')"
proof -
  have s: "conf (sample_env (Some ''stable'')) Map.empty = Inr (sample_result ''0.4.0'')"
    by (rule sample_conf_stable)
  have m: "conf (sample_env (Some ''main'')) Map.empty
             = Inr (sample_result ''0.4.1.dev3+g1a2b3c'')"
    by (rule sample_conf_main)
  have c: "applies_schemes (sample_env (Some ''stable'')) (\<lambda>_. Inr sample_version)"
    by (simp add: applies_schemes_def sample_env_def sample_get_version_def)
  have bs: "current_branch (sample_env (Some ''stable'')) = Inr (Some ''stable'')"
    by (simp add: current_branch_def sample_env_def)
  have bm: "current_branch (sample_env (Some ''main'')) = Inr (Some ''main'')"
    by (simp add: current_branch_def sample_env_def)
  from release_follows_branch [OF s, of "\<lambda>_. Inr sample_version"] bs c
  have rs: "sample_result ''0.4.0'' ''release'' =
      Some (PStr (py_str (sample_env (Some ''stable'')) (tag sample_version)))"
    by auto
  have t: "py_str (sample_env (Some ''stable'')) (tag sample_version) = ''0.4.0''"
    by (simp add: sample_env_def sample_version_def)
  from release_follows_branch [OF m, of "\<lambda>_. Inr sample_version"] bm
  have rm: "sample_result ''0.4.1.dev3+g1a2b3c'' ''release''
              = Some (PStr ''0.4.1.dev3+g1a2b3c'')"
    by (auto simp: sample_env_def sample_get_version_def)
  have gm: "get_version (sample_env (Some ''main'')) default_args
              = Inr ''0.4.1.dev3+g1a2b3c''"
    by (simp add: sample_env_def sample_get_version_def default_args_def)
  from s c bs rs t m bm rm gm show ?thesis by (intro conjI)
qed

subsection \<open>The literal values\<close>

text \<open>
  Claim C6. After a run that completes, \<^verbatim>\<open>extensions\<close> is the list of
  \<^verbatim>\<open>'myst_parser'\<close>, \<^verbatim>\<open>'sphinx_tabs.tabs'\<close> and \<^verbatim>\<open>'sphinx.ext.autosectionlabel'\<close>, in
  that order: nothing of the empty list assigned on line 30 is left.
\<close>

theorem extensions_final:
  assumes "conf e ns0 = Inr ns"
  shows "ns ''extensions'' =
           Some (PList [PStr ''myst_parser'', PStr ''sphinx_tabs.tabs'',
                        PStr ''sphinx.ext.autosectionlabel''])"
proof -
  from conf_Inr [OF assms] obtain r where
    "ns = literals ((imported ns0)(''release'' \<mapsto> PStr r))"
    by blast
  then show ?thesis by (simp add: literals_def)
qed

text \<open>Claim C6 on the sample checkout of \<^verbatim>\<open>main\<close>.\<close>

theorem extensions_final_witness:
  "conf (sample_env (Some ''main'')) Map.empty = Inr (sample_result ''0.4.1.dev3+g1a2b3c'') \<and>
   sample_result ''0.4.1.dev3+g1a2b3c'' ''extensions'' =
     Some (PList [PStr ''myst_parser'', PStr ''sphinx_tabs.tabs'',
                  PStr ''sphinx.ext.autosectionlabel''])"
  using sample_conf_main extensions_final [OF sample_conf_main] by simp

text \<open>
  Claim C7. After a run that completes, \<^verbatim>\<open>templates_path\<close>, \<^verbatim>\<open>exclude_patterns\<close> and
  \<^verbatim>\<open>html_static_path\<close> are the empty list and \<^verbatim>\<open>autosectionlabel_prefix_document\<close> is
  \<^verbatim>\<open>True\<close>, whatever the branch and whatever \<^verbatim>\<open>get_version\<close> answered.
\<close>

theorem empty_lists_and_flag:
  assumes "conf e ns0 = Inr ns"
  shows "ns ''templates_path'' = Some (PList []) \<and>
         ns ''exclude_patterns'' = Some (PList []) \<and>
         ns ''html_static_path'' = Some (PList []) \<and>
         ns ''autosectionlabel_prefix_document'' = Some (PBool True)"
proof -
  from conf_Inr [OF assms] obtain r where
    "ns = literals ((imported ns0)(''release'' \<mapsto> PStr r))"
    by blast
  then show ?thesis by (simp add: literals_def)
qed

text \<open>Claim C7 on the sample checkout of \<^verbatim>\<open>stable\<close>.\<close>

theorem empty_lists_and_flag_witness:
  "conf (sample_env (Some ''stable'')) Map.empty = Inr (sample_result ''0.4.0'') \<and>
   sample_result ''0.4.0'' ''templates_path'' = Some (PList []) \<and>
   sample_result ''0.4.0'' ''exclude_patterns'' = Some (PList []) \<and>
   sample_result ''0.4.0'' ''html_static_path'' = Some (PList []) \<and>
   sample_result ''0.4.0'' ''autosectionlabel_prefix_document'' = Some (PBool True)"
  using sample_conf_stable empty_lists_and_flag [OF sample_conf_stable] by simp

text \<open>
  Claim C8. After a run that completes, \<^verbatim>\<open>project\<close> is \<^verbatim>\<open>'Configurature'\<close>,
  \<^verbatim>\<open>copyright\<close> is \<^verbatim>\<open>'2024, Google LLC'\<close>, \<^verbatim>\<open>author\<close> is \<^verbatim>\<open>'Ian Moore'\<close> and
  \<^verbatim>\<open>html_theme\<close> is \<^verbatim>\<open>'sphinx_rtd_theme'\<close>, in every environment.
\<close>

theorem identity_and_theme:
  assumes "conf e ns0 = Inr ns"
  shows "ns ''project'' = Some (PStr ''Configurature'') \<and>
         ns ''copyright'' = Some (PStr ''2024, Google LLC'') \<and>
         ns ''author'' = Some (PStr ''Ian Moore'') \<and>
         ns ''html_theme'' = Some (PStr ''sphinx_rtd_theme'')"
proof -
  from conf_Inr [OF assms] obtain r where
    "ns = literals ((imported ns0)(''release'' \<mapsto> PStr r))"
    by blast
  then show ?thesis by (simp add: literals_def)
qed

text \<open>Claim C8 on the sample checkout of \<^verbatim>\<open>stable\<close>.\<close>

theorem identity_and_theme_witness:
  "conf (sample_env (Some ''stable'')) Map.empty = Inr (sample_result ''0.4.0'') \<and>
   sample_result ''0.4.0'' ''project'' = Some (PStr ''Configurature'') \<and>
   sample_result ''0.4.0'' ''copyright'' = Some (PStr ''2024, Google LLC'') \<and>
   sample_result ''0.4.0'' ''author'' = Some (PStr ''Ian Moore'') \<and>
   sample_result ''0.4.0'' ''html_theme'' = Some (PStr ''sphinx_rtd_theme'')"
  using sample_conf_stable identity_and_theme [OF sample_conf_stable] by simp

subsection \<open>What the branch can influence\<close>

text \<open>
  Claim C3. Take two runs from the same starting namespace, in any two environments
  (they may differ in the branch, in what \<^verbatim>\<open>get_version\<close> answers, in anything), both
  running to completion. Then every name other than \<^verbatim>\<open>release\<close> is bound alike in the
  two final namespaces; in particular each of the nine other configuration names is
  bound, and to the same value in both.
\<close>

theorem branch_touches_release_only:
  assumes "conf e1 ns0 = Inr ns1" and "conf e2 ns0 = Inr ns2"
  shows "(\<forall>n. n \<noteq> ''release'' \<longrightarrow> ns1 n = ns2 n) \<and>
         (\<forall>n \<in> {''project'', ''copyright'', ''author'', ''extensions'', ''templates_path'',
                 ''exclude_patterns'', ''html_theme'', ''html_static_path'',
                 ''autosectionlabel_prefix_document''}. ns1 n \<noteq> None \<and> ns1 n = ns2 n)"
proof -
  from conf_Inr [OF assms(1)] obtain r1 where
    n1: "ns1 = literals ((imported ns0)(''release'' \<mapsto> PStr r1))"
    by blast
  from conf_Inr [OF assms(2)] obtain r2 where
    n2: "ns2 = literals ((imported ns0)(''release'' \<mapsto> PStr r2))"
    by blast
  have a: "\<forall>n. n \<noteq> ''release'' \<longrightarrow> ns1 n = ns2 n"
    by (simp add: n1 n2 literals_def)
  have b: "\<forall>n \<in> {''project'', ''copyright'', ''author'', ''extensions'', ''templates_path'',
                 ''exclude_patterns'', ''html_theme'', ''html_static_path'',
                 ''autosectionlabel_prefix_document''}. ns1 n \<noteq> None \<and> ns1 n = ns2 n"
    by (simp add: n1 n2 literals_def)
  from a b show ?thesis by (rule conjI)
qed

text \<open>Claim C3 on the sample checkouts of \<^verbatim>\<open>stable\<close> and of \<^verbatim>\<open>main\<close>: only the release differs.\<close>

theorem branch_touches_release_only_witness:
  "conf (sample_env (Some ''stable'')) Map.empty = Inr (sample_result ''0.4.0'') \<and>
   conf (sample_env (Some ''main'')) Map.empty = Inr (sample_result ''0.4.1.dev3+g1a2b3c'') \<and>
   sample_result ''0.4.0'' ''release'' \<noteq> sample_result ''0.4.1.dev3+g1a2b3c'' ''release'' \<and>
   sample_result ''0.4.0'' ''project'' = sample_result ''0.4.1.dev3+g1a2b3c'' ''project'' \<and>
   sample_result ''0.4.0'' ''extensions'' = sample_result ''0.4.1.dev3+g1a2b3c'' ''extensions'' \<and>
   sample_result ''0.4.0'' ''html_theme'' = sample_result ''0.4.1.dev3+g1a2b3c'' ''html_theme'' \<and>
   sample_result ''0.4.0'' ''Path'' = sample_result ''0.4.1.dev3+g1a2b3c'' ''Path'' \<and>
   sample_result ''0.4.0'' ''project'' \<noteq> None"
proof -
  note w = branch_touches_release_only [OF sample_conf_stable sample_conf_main]
  have r: "sample_result ''0.4.0'' ''release'' \<noteq> sample_result ''0.4.1.dev3+g1a2b3c'' ''release''"
    by (simp add: sample_result_def literals_def)
  from w have a: "\<And>n. n \<noteq> ''release'' \<Longrightarrow>
      sample_result ''0.4.0'' n = sample_result ''0.4.1.dev3+g1a2b3c'' n"
    by blast
  from w have b: "sample_result ''0.4.0'' ''project'' \<noteq> None"
    by blast
  have "sample_result ''0.4.0'' ''project'' = sample_result ''0.4.1.dev3+g1a2b3c'' ''project''"
    "sample_result ''0.4.0'' ''extensions'' = sample_result ''0.4.1.dev3+g1a2b3c'' ''extensions''"
    "sample_result ''0.4.0'' ''html_theme'' = sample_result ''0.4.1.dev3+g1a2b3c'' ''html_theme''"
    "sample_result ''0.4.0'' ''Path'' = sample_result ''0.4.1.dev3+g1a2b3c'' ''Path''"
    by (rule a, simp)+
  with sample_conf_stable sample_conf_main r b show ?thesis by blast
qed

subsection \<open>The names the module binds\<close>

text \<open>
  Claim C4. The assignment statements of the module have ten distinct targets:
  \<^verbatim>\<open>project\<close>, \<^verbatim>\<open>copyright\<close>, \<^verbatim>\<open>author\<close>, \<^verbatim>\<open>release\<close>, \<^verbatim>\<open>extensions\<close>,
  \<^verbatim>\<open>templates_path\<close>, \<^verbatim>\<open>exclude_patterns\<close>, \<^verbatim>\<open>html_theme\<close>, \<^verbatim>\<open>html_static_path\<close> and
  \<^verbatim>\<open>autosectionlabel_prefix_document\<close>. After a run that completes, each of the ten
  is bound to a value that is not an imported object (no fewer); the only other
  names the run has bound are the three names of the import statements, each to
  the imported object itself; and every further name is as it was before the run (no
  more).
\<close>

theorem ten_names_assigned:
  assumes "conf e ns0 = Inr ns"
  shows "set config_names =
           {''project'', ''copyright'', ''author'', ''release'', ''extensions'',
            ''templates_path'', ''exclude_patterns'', ''html_theme'', ''html_static_path'',
            ''autosectionlabel_prefix_document''} \<and>
         distinct config_names \<and> length config_names = 10 \<and>
         (\<forall>n \<in> set config_names. \<exists>v. ns n = Some v \<and> (\<forall>q. v \<noteq> PObj q)) \<and>
         (\<forall>n \<in> {''Path'', ''get_version'', ''GitWorkdir''}. \<exists>q. ns n = Some (PObj q)) \<and>
         (\<forall>n. n \<notin> set config_names \<union> {''Path'', ''get_version'', ''GitWorkdir''}
               \<longrightarrow> ns n = ns0 n) \<and>
         dom ns = dom ns0 \<union> {''Path'', ''get_version'', ''GitWorkdir''} \<union> set config_names"
proof -
  from conf_Inr [OF assms] obtain r where
    ns: "ns = literals ((imported ns0)(''release'' \<mapsto> PStr r))"
    by blast
  have a: "set config_names =
           {''project'', ''copyright'', ''author'', ''release'', ''extensions'',
            ''templates_path'', ''exclude_patterns'', ''html_theme'', ''html_static_path'',
            ''autosectionlabel_prefix_document''}"
    by (auto simp: config_names_def)
  have b: "distinct config_names" "length config_names = 10"
    by (simp_all add: config_names_def)
  have c: "\<forall>n \<in> set config_names. \<exists>v. ns n = Some v \<and> (\<forall>q. v \<noteq> PObj q)"
    by (simp add: ns config_names_def literals_def)
  have d: "\<forall>n \<in> {''Path'', ''get_version'', ''GitWorkdir''}. \<exists>q. ns n = Some (PObj q)"
    by (simp add: ns literals_def imported_def)
  have f: "\<forall>n. n \<notin> set config_names \<union> {''Path'', ''get_version'', ''GitWorkdir''}
               \<longrightarrow> ns n = ns0 n"
    by (simp add: ns config_names_def literals_def imported_def)
  have g: "dom ns = dom ns0 \<union> {''Path'', ''get_version'', ''GitWorkdir''} \<union> set config_names"
    by (auto simp: ns config_names_def literals_def imported_def)
  from a b c d f g show ?thesis by blast
qed

text \<open>
  Claim C4 on the sample checkout of \<^verbatim>\<open>stable\<close>, from the empty namespace: thirteen
  names are bound, and a name the module never mentions is not.
\<close>

theorem ten_names_assigned_witness:
  "conf (sample_env (Some ''stable'')) Map.empty = Inr (sample_result ''0.4.0'') \<and>
   dom (sample_result ''0.4.0'') =
     dom (Map.empty :: namespace) \<union> {''Path'', ''get_version'', ''GitWorkdir''} \<union>
     set config_names \<and>
   length config_names = 10 \<and>
   sample_result ''0.4.0'' ''Path'' = Some (PObj ''pathlib.Path'') \<and>
   sample_result ''0.4.0'' ''tags'' = None"
proof -
  note w = ten_names_assigned [OF sample_conf_stable]
  have p: "sample_result ''0.4.0'' ''Path'' = Some (PObj ''pathlib.Path'')"
    by (simp add: sample_result_def literals_def imported_def)
  have t: "sample_result ''0.4.0'' ''tags'' = None"
    by (simp add: sample_result_def literals_def imported_def)
  have d: "dom (sample_result ''0.4.0'') =
      dom (Map.empty :: namespace) \<union> {''Path'', ''get_version'', ''GitWorkdir''} \<union>
      set config_names"
    using w by (elim conjE)
  have l: "length config_names = 10"
    using w by (elim conjE)
  from sample_conf_stable d l p t show ?thesis
    by (intro conjI)
qed

subsection \<open>Runs that raise\<close>

text \<open>The three ways in which lines 13 to 21 raise.\<close>

lemma release_value_Inl:
  assumes "current_branch e = Inl x \<or>
           (current_branch e = Inr (Some ''stable'') \<and> get_version e (stable_args e) = Inl x) \<or>
           (\<exists>b. current_branch e = Inr b \<and> b \<noteq> Some ''stable'' \<and>
                get_version e default_args = Inl x)"
  shows "release_value e = Inl x"
  using assms by (auto simp: release_value_def)

lemma trace_conf_raises:
  assumes "import_error e ''pathlib'' = None" "import_error e ''setuptools_scm'' = None"
    "import_error e ''setuptools_scm.git'' = None" "release_value e = Inl x"
  shows "trace (conf_stmts e) ns0 =
           [ns0,
            ns0(''Path'' \<mapsto> PObj ''pathlib.Path''),
            ns0(''Path'' \<mapsto> PObj ''pathlib.Path'',
                ''get_version'' \<mapsto> PObj ''setuptools_scm.get_version''),
            imported ns0]"
  using assms
  by (simp add: conf_stmts_def import_from_def release_stmt_value imported_def)

lemma conf_raises:
  assumes "import_error e ''pathlib'' = None" "import_error e ''setuptools_scm'' = None"
    "import_error e ''setuptools_scm.git'' = None" "release_value e = Inl x"
  shows "conf e ns0 = Inl x"
  using assms
  by (simp add: conf_def conf_stmts_def import_from_def release_stmt_value)

text \<open>
  Claim C2. Let the three imports succeed, so that the run reaches line 13. If the
  branch lookup raises \<open>x\<close>, or the branch is \<^verbatim>\<open>'stable'\<close> and the call of
  \<^verbatim>\<open>get_version\<close> on lines 15 to 19 raises \<open>x\<close>, or the branch is anything else and the
  call on line 21 raises \<open>x\<close>, then the run ends with \<open>x\<close>: the other call of
  \<^verbatim>\<open>get_version\<close> is not tried in its place, whatever it would answer. The run goes
  through four namespaces only (the start and one after each import), and in each of
  them every configuration name is bound as it was at the start: neither
  \<^verbatim>\<open>release\<close> nor any later name has been assigned.
\<close>

theorem errors_propagate:
  assumes "import_error e ''pathlib'' = None" and "import_error e ''setuptools_scm'' = None"
    and "import_error e ''setuptools_scm.git'' = None"
    and "current_branch e = Inl x \<or>
         (current_branch e = Inr (Some ''stable'') \<and> get_version e (stable_args e) = Inl x) \<or>
         (\<exists>b. current_branch e = Inr b \<and> b \<noteq> Some ''stable'' \<and>
              get_version e default_args = Inl x)"
  shows "conf e ns0 = Inl x \<and>
         length (trace (conf_stmts e) ns0) = 4 \<and>
         (\<forall>s \<in> set (trace (conf_stmts e) ns0). \<forall>n \<in> set config_names. s n = ns0 n)"
proof -
  have rv: "release_value e = Inl x"
    using assms(4) by (rule release_value_Inl)
  have c: "conf e ns0 = Inl x"
    using assms(1-3) rv by (rule conf_raises)
  note t = trace_conf_raises [OF assms(1-3) rv, of ns0]
  have l: "length (trace (conf_stmts e) ns0) = 4"
    by (simp add: t)
  have f: "\<forall>s \<in> set (trace (conf_stmts e) ns0). \<forall>n \<in> set config_names. s n = ns0 n"
    by (simp add: t imported_def config_names_def)
  from c l f show ?thesis by (intro conjI)
qed

text \<open>
  Claim C2 on two sample machines. On the first, the checkout of \<^verbatim>\<open>stable\<close> where the
  call with the caller's schemes raises: the run raises the same, although the call
  with the default schemes would have answered. On the second, the branch lookup
  raises.
\<close>

theorem errors_propagate_witness:
  "(get_version (no_tag_env (Some ''stable'')) (stable_args (no_tag_env (Some ''stable'')))
      = Inl (Exn ''LookupError'') \<and>
    get_version (no_tag_env (Some ''stable'')) default_args = Inr ''0.1.dev1+g1a2b3c'' \<and>
    conf (no_tag_env (Some ''stable'')) Map.empty = Inl (Exn ''LookupError'') \<and>
    length (trace (conf_stmts (no_tag_env (Some ''stable''))) Map.empty) = 4) \<and>
   (current_branch no_git_env = Inl (Exn ''CommandNotFoundError'') \<and>
    conf no_git_env Map.empty = Inl (Exn ''CommandNotFoundError'') \<and>
    length (trace (conf_stmts no_git_env) Map.empty) = 4)"
proof -
  have i: "import_error (no_tag_env (Some ''stable'')) ''pathlib'' = None"
    "import_error (no_tag_env (Some ''stable'')) ''setuptools_scm'' = None"
    "import_error (no_tag_env (Some ''stable'')) ''setuptools_scm.git'' = None"
    by (simp_all add: no_tag_env_def sample_env_def)
  have b: "current_branch (no_tag_env (Some ''stable'')) = Inr (Some ''stable'')"
    by (simp add: current_branch_def no_tag_env_def sample_env_def)
  have g: "get_version (no_tag_env (Some ''stable'')) (stable_args (no_tag_env (Some ''stable'')))
      = Inl (Exn ''LookupError'')"
    by (simp add: no_tag_env_def sample_env_def stable_args_def)
  have d: "get_version (no_tag_env (Some ''stable'')) default_args = Inr ''0.1.dev1+g1a2b3c''"
    by (simp add: no_tag_env_def sample_env_def default_args_def)
  have j: "import_error no_git_env ''pathlib'' = None"
    "import_error no_git_env ''setuptools_scm'' = None"
    "import_error no_git_env ''setuptools_scm.git'' = None"
    by (simp_all add: no_git_env_def sample_env_def)
  have k: "current_branch no_git_env = Inl (Exn ''CommandNotFoundError'')"
    by (simp add: current_branch_def no_git_env_def sample_env_def)
  from b g have h1: "current_branch (no_tag_env (Some ''stable'')) = Inl (Exn ''LookupError'') \<or>
         (current_branch (no_tag_env (Some ''stable'')) = Inr (Some ''stable'') \<and>
          get_version (no_tag_env (Some ''stable'')) (stable_args (no_tag_env (Some ''stable'')))
            = Inl (Exn ''LookupError'')) \<or>
         (\<exists>b. current_branch (no_tag_env (Some ''stable'')) = Inr b \<and> b \<noteq> Some ''stable'' \<and>
              get_version (no_tag_env (Some ''stable'')) default_args = Inl (Exn ''LookupError''))"
    by simp
  from k have h2: "current_branch no_git_env = Inl (Exn ''CommandNotFoundError'') \<or>
         (current_branch no_git_env = Inr (Some ''stable'') \<and>
          get_version no_git_env (stable_args no_git_env) = Inl (Exn ''CommandNotFoundError'')) \<or>
         (\<exists>b. current_branch no_git_env = Inr b \<and> b \<noteq> Some ''stable'' \<and>
              get_version no_git_env default_args = Inl (Exn ''CommandNotFoundError''))"
    by simp
  note w1 = errors_propagate [OF i h1, of Map.empty]
  note w2 = errors_propagate [OF j h2, of Map.empty]
  have a1: "conf (no_tag_env (Some ''stable'')) Map.empty = Inl (Exn ''LookupError'')"
    by (rule w1 [THEN conjunct1])
  have a2: "length (trace (conf_stmts (no_tag_env (Some ''stable''))) Map.empty) = 4"
    by (rule w1 [THEN conjunct2, THEN conjunct1])
  have b1: "conf no_git_env Map.empty = Inl (Exn ''CommandNotFoundError'')"
    by (rule w2 [THEN conjunct1])
  have b2: "length (trace (conf_stmts no_git_env) Map.empty) = 4"
    by (rule w2 [THEN conjunct2, THEN conjunct1])
  from g d a1 a2 k b1 b2 show ?thesis by (intro conjI)
qed

subsection \<open>Shapes along the run\<close>

text \<open>
  A property that holds at the start and that every statement keeps holds in every
  namespace the run goes through, whether the run completes or raises.
\<close>

lemma trace_invariant:
  assumes "P ns" and "\<And>s a b. s \<in> set ss \<Longrightarrow> P a \<Longrightarrow> s a = Inr b \<Longrightarrow> P b"
  shows "\<forall>x \<in> set (trace ss ns). P x"
  using assms
proof (induction ss arbitrary: ns)
  case Nil
  then show ?case by simp
next
  case (Cons s ss)
  have step: "P b" if "t \<in> set ss" and "P a" and "t a = Inr b" for t a b
    using Cons.prems(2) [of t a b] that by simp
  show ?case
  proof (cases "s ns")
    case (Inl x)
    with Cons.prems(1) show ?thesis by simp
  next
    case (Inr ns')
    have "P ns'"
      using Cons.prems(2) [of s ns ns'] Cons.prems(1) Inr by simp
    then have "\<forall>x \<in> set (trace ss ns'). P x"
      using step by (rule Cons.IH)
    with Inr Cons.prems(1) show ?thesis by simp
  qed
qed

text \<open>Binding a name to a value of its shape keeps a namespace well shaped.\<close>

lemma well_shaped_upd:
  assumes "well_shaped a" and "n \<in> set config_names \<Longrightarrow> shape_of n v"
  shows "well_shaped (a(n \<mapsto> v))"
proof -
  have *: "case (a(n \<mapsto> v)) k of None \<Rightarrow> True | Some w \<Rightarrow> shape_of k w"
    if "k \<in> set config_names" for k
  proof (cases "k = n")
    case True
    with that assms(2) show ?thesis by simp
  next
    case False
    from assms(1) that have "case a k of None \<Rightarrow> True | Some w \<Rightarrow> shape_of k w"
      by (simp add: well_shaped_def list_all_iff)
    with False show ?thesis by simp
  qed
  show ?thesis
    unfolding well_shaped_def list_all_iff
    by (rule ballI) (rule *)
qed

lemma well_shaped_assign:
  assumes "well_shaped a" and "shape_of n v" and "assign n v a = Inr b"
  shows "well_shaped b"
proof -
  from assms(3) have "b = a(n \<mapsto> v)" by (simp add: assign_def)
  with well_shaped_upd [OF assms(1), of n v] assms(2) show ?thesis by simp
qed

lemma well_shaped_import:
  assumes "well_shaped a" and "n \<notin> set config_names" and "import_from e m n a = Inr b"
  shows "well_shaped b"
proof -
  from assms(3) have "b = a(n \<mapsto> PObj (m @ ''.'' @ n))"
    by (simp add: import_from_def split: option.splits)
  with well_shaped_upd [OF assms(1), of n "PObj (m @ ''.'' @ n)"] assms(2)
  show ?thesis by simp
qed

lemma well_shaped_release:
  assumes "well_shaped a" and "release_stmt e a = Inr b"
  shows "well_shaped b"
proof -
  from assms(2) obtain r where b: "b = a(''release'' \<mapsto> PStr r)"
    by (auto simp: release_stmt_value split: sum.splits)
  have "shape_of ''release'' (PStr r)"
    by (simp add: shape_of_def)
  with well_shaped_upd [OF assms(1), of "''release''" "PStr r"] b show ?thesis by simp
qed

text \<open>Every statement of the module keeps the namespace well shaped.\<close>

lemma conf_stmts_keep_shape:
  assumes "s \<in> set (conf_stmts e)" and "well_shaped a" and "s a = Inr b"
  shows "well_shaped b"
proof -
  have i: "''Path'' \<notin> set config_names" "''get_version'' \<notin> set config_names"
    "''GitWorkdir'' \<notin> set config_names"
    by (simp_all add: config_names_def)
  have v: "shape_of ''project'' (PStr ''Configurature'')"
    "shape_of ''copyright'' (PStr ''2024, Google LLC'')"
    "shape_of ''author'' (PStr ''Ian Moore'')"
    "shape_of ''extensions'' (PList [])"
    "shape_of ''templates_path'' (PList [])"
    "shape_of ''exclude_patterns'' (PList [])"
    "shape_of ''extensions'' (PList [PStr ''myst_parser'', PStr ''sphinx_tabs.tabs'',
                PStr ''sphinx.ext.autosectionlabel''])"
    "shape_of ''autosectionlabel_prefix_document'' (PBool True)"
    "shape_of ''html_theme'' (PStr ''sphinx_rtd_theme'')"
    "shape_of ''html_static_path'' (PList [])"
    by (simp_all add: shape_of_def)
  from assms(1) consider
      (p) m n where "s = import_from e m n" "n \<notin> set config_names"
    | (r) "s = release_stmt e"
    | (l) n w where "s = assign n w" "shape_of n w"
    unfolding conf_stmts_def set_simps insert_iff empty_iff
    using i v by metis
  then show ?thesis
  proof cases
    case p
    with assms(2,3) show ?thesis by (auto intro: well_shaped_import)
  next
    case r
    with assms(2,3) show ?thesis by (auto intro: well_shaped_release)
  next
    case l
    with assms(2,3) show ?thesis by (auto intro: well_shaped_assign)
  qed
qed

text \<open>
  Claim C5. Start from a namespace in which every configuration name that is bound
  has its shape (the empty namespace is one). Then every namespace the run goes
  through is such a namespace, whether the run completes or raises. When the run
  completes: \<^verbatim>\<open>project\<close>, \<^verbatim>\<open>copyright\<close>, \<^verbatim>\<open>author\<close>, \<^verbatim>\<open>html_theme\<close> and \<^verbatim>\<open>release\<close>
  are bound to strings; \<^verbatim>\<open>extensions\<close>, \<^verbatim>\<open>templates_path\<close>, \<^verbatim>\<open>exclude_patterns\<close> and
  \<^verbatim>\<open>html_static_path\<close> are bound to lists of strings; the run went through fifteen
  namespaces (the start and one after each of the fourteen statements), the last of
  which is its result; and each name, from the namespace after the last statement
  that assigns it onwards, is bound to what it is bound to in the result: \<^verbatim>\<open>release\<close>
  from the fourth statement on, \<^verbatim>\<open>project\<close> from the fifth, \<^verbatim>\<open>copyright\<close> from the
  sixth, \<^verbatim>\<open>author\<close> from the seventh, \<^verbatim>\<open>templates_path\<close> from the ninth,
  \<^verbatim>\<open>exclude_patterns\<close> from the tenth, \<^verbatim>\<open>extensions\<close> from the eleventh (its second
  assignment), \<^verbatim>\<open>autosectionlabel_prefix_document\<close> from the twelfth, \<^verbatim>\<open>html_theme\<close>
  from the thirteenth and \<^verbatim>\<open>html_static_path\<close> from the fourteenth.
\<close>

theorem shapes_kept:
  assumes "well_shaped ns0"
  shows "(\<forall>s \<in> set (trace (conf_stmts e) ns0). well_shaped s) \<and>
         (\<forall>ns. conf e ns0 = Inr ns \<longrightarrow>
            (\<forall>n \<in> {''project'', ''copyright'', ''author'', ''html_theme'', ''release''}.
               \<exists>s. ns n = Some (PStr s)) \<and>
            (\<forall>n \<in> {''extensions'', ''templates_path'', ''exclude_patterns'',
                    ''html_static_path''}.
               \<exists>vs. ns n = Some (PList vs) \<and> list_all is_str vs) \<and>
            length (trace (conf_stmts e) ns0) = 15 \<and>
            last (trace (conf_stmts e) ns0) = ns \<and>
            (\<forall>s \<in> set (drop 4 (trace (conf_stmts e) ns0)). s ''release'' = ns ''release'') \<and>
            (\<forall>s \<in> set (drop 5 (trace (conf_stmts e) ns0)). s ''project'' = ns ''project'') \<and>
            (\<forall>s \<in> set (drop 6 (trace (conf_stmts e) ns0)).
               s ''copyright'' = ns ''copyright'') \<and>
            (\<forall>s \<in> set (drop 7 (trace (conf_stmts e) ns0)). s ''author'' = ns ''author'') \<and>
            (\<forall>s \<in> set (drop 9 (trace (conf_stmts e) ns0)).
               s ''templates_path'' = ns ''templates_path'') \<and>
            (\<forall>s \<in> set (drop 10 (trace (conf_stmts e) ns0)).
               s ''exclude_patterns'' = ns ''exclude_patterns'') \<and>
            (\<forall>s \<in> set (drop 11 (trace (conf_stmts e) ns0)).
               s ''extensions'' = ns ''extensions'') \<and>
            (\<forall>s \<in> set (drop 12 (trace (conf_stmts e) ns0)).
               s ''autosectionlabel_prefix_document'' =
               ns ''autosectionlabel_prefix_document'') \<and>
            (\<forall>s \<in> set (drop 13 (trace (conf_stmts e) ns0)).
               s ''html_theme'' = ns ''html_theme'') \<and>
            (\<forall>s \<in> set (drop 14 (trace (conf_stmts e) ns0)).
               s ''html_static_path'' = ns ''html_static_path''))"
proof (intro conjI allI impI)
  show "\<forall>s \<in> set (trace (conf_stmts e) ns0). well_shaped s"
    using assms conf_stmts_keep_shape by (rule trace_invariant)
next
  fix ns
  assume c: "conf e ns0 = Inr ns"
  from conf_Inr [OF c] obtain r where
    i: "import_error e ''pathlib'' = None" "import_error e ''setuptools_scm'' = None"
       "import_error e ''setuptools_scm.git'' = None" and
    rv: "release_value e = Inr r" and
    ns: "ns = literals ((imported ns0)(''release'' \<mapsto> PStr r))"
    by blast
  note ev = conf_stmts_def import_from_def release_stmt_value assign_def i rv
  show "\<forall>n \<in> {''project'', ''copyright'', ''author'', ''html_theme'', ''release''}.
               \<exists>s. ns n = Some (PStr s)"
    by (simp add: ns literals_def)
  show "\<forall>n \<in> {''extensions'', ''templates_path'', ''exclude_patterns'',
                    ''html_static_path''}.
               \<exists>vs. ns n = Some (PList vs) \<and> list_all is_str vs"
    by (simp add: ns literals_def)
  show "length (trace (conf_stmts e) ns0) = 15"
    by (simp add: ev)
  show "last (trace (conf_stmts e) ns0) = ns"
    by (simp add: ev ns literals_def imported_def)
  show "\<forall>s \<in> set (drop 4 (trace (conf_stmts e) ns0)). s ''release'' = ns ''release''"
    by (simp add: ev ns literals_def)
  show "\<forall>s \<in> set (drop 5 (trace (conf_stmts e) ns0)). s ''project'' = ns ''project''"
    by (simp add: ev ns literals_def)
  show "\<forall>s \<in> set (drop 6 (trace (conf_stmts e) ns0)). s ''copyright'' = ns ''copyright''"
    by (simp add: ev ns literals_def)
  show "\<forall>s \<in> set (drop 7 (trace (conf_stmts e) ns0)). s ''author'' = ns ''author''"
    by (simp add: ev ns literals_def)
  show "\<forall>s \<in> set (drop 9 (trace (conf_stmts e) ns0)).
               s ''templates_path'' = ns ''templates_path''"
    by (simp add: ev ns literals_def)
  show "\<forall>s \<in> set (drop 10 (trace (conf_stmts e) ns0)).
               s ''exclude_patterns'' = ns ''exclude_patterns''"
    by (simp add: ev ns literals_def)
  show "\<forall>s \<in> set (drop 11 (trace (conf_stmts e) ns0)).
               s ''extensions'' = ns ''extensions''"
    by (simp add: ev ns literals_def)
  show "\<forall>s \<in> set (drop 12 (trace (conf_stmts e) ns0)).
               s ''autosectionlabel_prefix_document'' =
               ns ''autosectionlabel_prefix_document''"
    by (simp add: ev ns literals_def)
  show "\<forall>s \<in> set (drop 13 (trace (conf_stmts e) ns0)).
               s ''html_theme'' = ns ''html_theme''"
    by (simp add: ev ns literals_def)
  show "\<forall>s \<in> set (drop 14 (trace (conf_stmts e) ns0)).
               s ''html_static_path'' = ns ''html_static_path''"
    by (simp add: ev ns literals_def)
qed

text \<open>
  Claim C5 on the sample checkout of \<^verbatim>\<open>stable\<close>, from the empty namespace.
\<close>

theorem shapes_kept_witness:
  "well_shaped Map.empty \<and>
   conf (sample_env (Some ''stable'')) Map.empty = Inr (sample_result ''0.4.0'') \<and>
   length (trace (conf_stmts (sample_env (Some ''stable''))) Map.empty) = 15 \<and>
   last (trace (conf_stmts (sample_env (Some ''stable''))) Map.empty) = sample_result ''0.4.0'' \<and>
   well_shaped (sample_result ''0.4.0'') \<and>
   sample_result ''0.4.0'' ''release'' = Some (PStr ''0.4.0'')"
proof -
  have z: "well_shaped Map.empty"
    by (simp add: well_shaped_def list_all_iff)
  note w = shapes_kept [OF z, of "sample_env (Some ''stable'')"]
  note f = w [THEN conjunct2, THEN spec, THEN mp, OF sample_conf_stable]
  have l: "length (trace (conf_stmts (sample_env (Some ''stable''))) Map.empty) = 15"
    by (rule f [THEN conjunct2, THEN conjunct2, THEN conjunct1])
  have e: "last (trace (conf_stmts (sample_env (Some ''stable''))) Map.empty)
             = sample_result ''0.4.0''"
    by (rule f [THEN conjunct2, THEN conjunct2, THEN conjunct2, THEN conjunct1])
  from l have "trace (conf_stmts (sample_env (Some ''stable''))) Map.empty \<noteq> []"
    by auto
  then have "last (trace (conf_stmts (sample_env (Some ''stable''))) Map.empty)
               \<in> set (trace (conf_stmts (sample_env (Some ''stable''))) Map.empty)"
    by (rule last_in_set)
  with w [THEN conjunct1] e have s: "well_shaped (sample_result ''0.4.0'')"
    by auto
  have r: "sample_result ''0.4.0'' ''release'' = Some (PStr ''0.4.0'')"
    by (simp add: sample_result_def literals_def)
  from z sample_conf_stable l e s r show ?thesis by (intro conjI)
qed

end
